theory Spec2Isabelle
  imports Main "HOL-Library.Word"
begin

section \<open>The archive header reader: \<open>streamArchiveVersion\<close>\<close>

text \<open>
  \<open>src/index.ts\<close>, lines 242--262. The function opens a read stream on the first nine
  bytes of a file (\<open>{start: 0, end: 8}\<close>) and returns a promise. The promise is resolved
  by the handler of the stream's \<open>data\<close> event (with the sum of bytes 4..7 of a nine-byte
  buffer filled from the chunk) or by the handler of its \<open>error\<close> event (with 0). Nothing
  else settles it: \<open>reject\<close> is never called and no handler listens to \<open>end\<close>.
\<close>

type_synonym byte = "8 word"

text \<open>A file as the reader sees it: it cannot be opened or read, or it has a content.\<close>

datatype fs_file = Unreadable | Readable "byte list"

text \<open>The events a read stream emits to its listeners.\<close>

datatype stream_event = DataEv "byte list" | ErrorEv | EndEv

text \<open>
  The state of a promise. \<open>Pending\<close> is the promise that never settles.
\<close>

datatype 'a promise = Pending | Resolved 'a | Rejected

text \<open>
  \<open>fs.createReadStream(filePath, {start: 0, end: 8})\<close> on a regular file: the stream
  delivers the bytes at offsets 0..8 that exist as one chunk (nine bytes are far below the
  stream's buffer size), then \<open>end\<close>. A stream never emits an empty chunk, so an empty
  file gives \<open>end\<close> alone. A file that cannot be opened gives \<open>error\<close>.
\<close>

definition createReadStream :: "fs_file \<Rightarrow> stream_event list" where
  "createReadStream f =
     (case f of
        Unreadable \<Rightarrow> [ErrorEv]
      | Readable content \<Rightarrow>
          (if take 9 content = [] then [EndEv] else [DataEv (take 9 content), EndEv]))"

text \<open>\<open>Buffer.alloc(n)\<close>: \<open>n\<close> zero bytes.\<close>

definition Buffer_alloc :: "nat \<Rightarrow> byte list" where
  "Buffer_alloc n = replicate n 0"

text \<open>
  \<open>buf.fill(value)\<close> with a buffer as value: the value is written again and again until
  the buffer is full, so byte \<open>i\<close> of the result is byte \<open>i mod length value\<close> of the
  value. Filling with an empty value raises in Node (\<open>None\<close>).
\<close>

definition Buffer_fill :: "byte list \<Rightarrow> byte list \<Rightarrow> byte list option" where
  "Buffer_fill buf val =
     (if val = [] then (if buf = [] then Some buf else None)
      else Some (map (\<lambda>i. val ! (i mod length val)) [0..<length buf]))"

text \<open>\<open>buf.slice(start, end)\<close> for indices within the buffer.\<close>

definition Buffer_slice :: "byte list \<Rightarrow> nat \<Rightarrow> nat \<Rightarrow> byte list" where
  "Buffer_slice buf start stop = drop start (take stop buf)"

text \<open>
  The body of the \<open>data\<close> handler, lines 250--255: the value it passes to \<open>resolve\<close>,
  or \<open>None\<close> when \<open>fill\<close> raises before \<open>resolve\<close> is reached. Bytes are added as
  unsigned numbers; a JavaScript number does not wrap at 255.
\<close>

definition on_data :: "byte list \<Rightarrow> nat option" where
  "on_data chunk =
     (case Buffer_fill (Buffer_alloc 9) chunk of
        None \<Rightarrow> None
      | Some data \<Rightarrow>
          (let versionBytes = Buffer_slice data 4 8
           in Some (foldl (\<lambda>accum entry. accum + unat entry) 0 versionBytes)))"

text \<open>
  The promise under a sequence of stream events. The first call of \<open>resolve\<close> settles
  it and later calls change nothing; a handler that raises leaves it as it was; when
  the events end without a call of \<open>resolve\<close> the promise stays pending.
\<close>

fun settle :: "stream_event list \<Rightarrow> nat promise" where
  "settle [] = Pending"
| "settle (DataEv chunk # evs) =
     (case on_data chunk of Some version \<Rightarrow> Resolved version | None \<Rightarrow> settle evs)"
| "settle (ErrorEv # evs) = Resolved 0"
| "settle (EndEv # evs) = settle evs"

definition streamArchiveVersion :: "fs_file \<Rightarrow> nat promise" where
  "streamArchiveVersion f = settle (createReadStream f)"

section \<open>JavaScript strings and Node paths\<close>

text \<open>
  File and plugin names are modelled as ASCII strings. \<open>toLowerCase\<close> maps the letters
  A..Z to a..z and leaves every other character as it is.
\<close>

definition toLowerChar :: "char \<Rightarrow> char" where
  "toLowerChar c =
     (let n = (of_char c :: nat) in if 65 \<le> n \<and> n \<le> 90 then char_of (n + 32) else c)"

definition toLowerCase :: "string \<Rightarrow> string" where
  "toLowerCase s = map toLowerChar s"

text \<open>\<open>s.startsWith(p)\<close>.\<close>

definition startsWith :: "string \<Rightarrow> string \<Rightarrow> bool" where
  "startsWith s p = (take (length p) s = p)"

text \<open>
  \<open>s.replace(pat, rep)\<close> with a string pattern: only the first (leftmost) occurrence of
  \<open>pat\<close> is replaced; the empty pattern occurs at position 0.
\<close>

fun replace :: "string \<Rightarrow> string \<Rightarrow> string \<Rightarrow> string" where
  "replace s pat rep =
     (if startsWith s pat then rep @ drop (length pat) s
      else (case s of [] \<Rightarrow> [] | c # cs \<Rightarrow> c # replace cs pat rep))"

text \<open>
  Node's \<open>path\<close> module (POSIX rules, separator \<open>/\<close>). Trailing separators are ignored
  and the last component of the path is what remains after the last separator. On a name
  without separator and without drive prefix, which is what a directory listing holds,
  the Windows rules give the same results.
\<close>

definition lastComponent :: "string \<Rightarrow> string" where
  "lastComponent p =
     rev (takeWhile (\<lambda>c. c \<noteq> CHR ''/'') (dropWhile (\<lambda>c. c = CHR ''/'') (rev p)))"

text \<open>\<open>path.basename(p)\<close> (one argument): the last component, extension included.\<close>

definition basename :: "string \<Rightarrow> string" where
  "basename p = lastComponent p"

text \<open>
  \<open>path.extname(p)\<close>: the part of the last component from its last dot to its end; the
  empty string when the component has no dot, when its only dot is its first character,
  or when the component is \<open>..\<close>.
\<close>

definition extname :: "string \<Rightarrow> string" where
  "extname p =
     (let b = lastComponent p;
          afterDot = takeWhile (\<lambda>c. c \<noteq> CHR ''.'') (rev b);
          startDot = length b - length afterDot - 1
      in if CHR ''.'' \<in> set b
         then (if startDot = 0 \<or> b = ''..'' then [] else drop startDot b)
         else [])"

text \<open>\<open>path.join(a, b)\<close> for a directory and a name (no dot segments to normalise).\<close>

definition path_join :: "string \<Rightarrow> string \<Rightarrow> string" where
  "path_join a b = a @ ''/'' @ b"

section \<open>The game table and the records of the pipeline\<close>

record gameData =
  gameId :: string
  gameName :: string
  version :: nat
  archiveType :: string

text \<open>\<open>archiveData\<close>, lines 7--57 (the New Vegas entry is commented out in the source).\<close>

definition archiveData :: "gameData list" where
  "archiveData =
     [\<lparr>gameId = ''skyrim'', gameName = ''Skyrim (2011)'', version = 104, archiveType = ''BSA''\<rparr>,
      \<lparr>gameId = ''skyrimse'', gameName = ''Skyrim Special Edition'', version = 105,
        archiveType = ''BSA''\<rparr>,
      \<lparr>gameId = ''skyrimvr'', gameName = ''Skyrim VR'', version = 105, archiveType = ''BSA''\<rparr>,
      \<lparr>gameId = ''oblivion'', gameName = ''Oblivion'', version = 103, archiveType = ''BSA''\<rparr>,
      \<lparr>gameId = ''fallout4'', gameName = ''Fallout 4'', version = 1, archiveType = ''BA2''\<rparr>,
      \<lparr>gameId = ''fallout4vr'', gameName = ''Fallout 4 VR'', version = 1, archiveType = ''BA2''\<rparr>,
      \<lparr>gameId = ''fallout76'', gameName = ''Fallout 76'', version = 1, archiveType = ''BA2''\<rparr>]"

text \<open>
  A plugin as the plugin manager reports it. \<open>modName\<close> is the key of the owning mod in
  the mod registry; it is absent (\<open>undefined\<close>) for a plugin no mod owns.
\<close>

record plugin =
  name :: string
  isNative :: bool
  loadsArchive :: bool
  enabled :: bool
  loadOrder :: int
  modName :: "string option"

record mod_attributes =
  customName :: "string option"
  logicalFileName :: "string option"
  attrName :: "string option"

record mod_entry =
  modId :: string
  attributes :: mod_attributes

text \<open>
  The mod registry and the grouper's \<open>groupedErrors\<close> are plain objects used as
  dictionaries. Reading \<open>obj[key]\<close> gives the object's own property when it has one;
  otherwise, for a name every object inherits from \<open>Object.prototype\<close>, the inherited
  member, which is a function or an object and so truthy; otherwise \<open>undefined\<close>.
\<close>

datatype 'a js_value = Undefined | Own 'a | Inherited string

definition inheritedNames :: "string list" where
  "inheritedNames =
     [''constructor'', ''__defineGetter__'', ''__defineSetter__'', ''hasOwnProperty'',
      ''__lookupGetter__'', ''__lookupSetter__'', ''isPrototypeOf'', ''propertyIsEnumerable'',
      ''toString'', ''valueOf'', ''__proto__'', ''toLocaleString'']"

definition objGet :: "(string \<rightharpoonup> 'a) \<Rightarrow> string \<Rightarrow> 'a js_value" where
  "objGet obj key =
     (case obj key of
        Some v \<Rightarrow> Own v
      | None \<Rightarrow> if key \<in> set inheritedNames then Inherited key else Undefined)"

text \<open>
  Modelled from the spec: the interface \<open>IDataArchive\<close> is declared in \<open>./types\<close>,
  which is not among the sources. The specification's candidate is a pair of an archive's
  file name and the owning plugin's name; these are the fields \<open>name\<close> and
  \<open>plugin\<close> of the object built on line 109, \<open>{ name: a, plugin: plugin.name }\<close>.
\<close>

record IDataArchive =
  archiveName :: string
  archivePlugin :: string

text \<open>
  The object returned on lines 141--147. Its \<open>mod\<close> is what \<open>mods[plugin.modName]\<close>
  gave, or \<open>undefined\<close> when no plugin was found.
\<close>

record issue =
  issueName :: string
  issueVersion :: nat
  validVersion :: nat
  issuePlugin :: "plugin option"
  issueMod :: "mod_entry js_value"

section \<open>The correlator (lines 87--110)\<close>

text \<open>Line 105: the listing entries kept as archives.\<close>

definition dataArchivesOf :: "string list \<Rightarrow> string list" where
  "dataArchivesOf dataFiles = filter (\<lambda>f. extname f \<in> set [''.ba2'', ''.bsa'']) dataFiles"

text \<open>Line 92: the plugins whose archives are checked.\<close>

definition archiveLoadersOf :: "plugin list \<Rightarrow> plugin list" where
  "archiveLoadersOf plugins = filter (\<lambda>p. \<not> isNative p \<and> loadsArchive p \<and> enabled p) plugins"

text \<open>Line 107: the lower-cased name a plugin's archives must start with.\<close>

definition pName :: "plugin \<Rightarrow> string" where
  "pName p = toLowerCase (replace (name p) (extname (name p)) [])"

text \<open>Line 108: the test of one archive against one plugin.\<close>

definition matchesPlugin :: "plugin \<Rightarrow> string \<Rightarrow> bool" where
  "matchesPlugin p a = startsWith (toLowerCase (basename a)) (pName p)"

text \<open>Lines 106--110: \<open>map\<close> over the plugins, then \<open>reduce\<close> with \<open>concat\<close>.\<close>

definition archivesToCheckOf :: "plugin list \<Rightarrow> string list \<Rightarrow> IDataArchive list" where
  "archivesToCheckOf archiveLoaders dataArchives =
     foldl (\<lambda>prev cur. prev @ cur) []
       (map (\<lambda>p. map (\<lambda>a. \<lparr>archiveName = a, archivePlugin = name p\<rparr>)
                    (filter (\<lambda>a. matchesPlugin p a) dataArchives))
            archiveLoaders)"

section \<open>The pipeline \<open>checkForErrors\<close> (lines 71--183)\<close>

text \<open>
  What the function does to the outside is recorded as a history of calls, in order:
  notifications dismissed, the directory listing asked for, progress notifications
  dispatched (with the numerator and the denominator of their \<open>progress\<close> value,
  \<open>pos * 100\<close> and the number of archives to check), read streams opened, the result
  notification sent (with the issues and the game its \<open>More\<close> action shows) and log
  entries (level and message).
\<close>

datatype effect =
    DismissNotification string
  | ReaddirAsync "string option"
  | AddNotification string nat nat string
  | CreateReadStream string
  | SendNotification string "issue list" gameData
  | Log string string

text \<open>
  The application's store. The function reads it with \<open>api.store.getState()\<close>: the
  active game, the mod registry of each game (\<open>persistent.mods\<close>) and the discovered
  installation path of each game (\<open>settings.gameMode.discovered\<close>). The function
  also writes it: the notifications it dispatches, sends and dismisses live in the same
  store, each under its identifier.
\<close>

record store_state =
  activeGameId :: string
  persistentMods :: "string \<Rightarrow> (string \<rightharpoonup> mod_entry) option"
  discoveredPath :: "string \<Rightarrow> string option"
  notifications :: "effect list"

text \<open>
  What the function reads from the machine: the listing of a directory (\<open>None\<close> when
  \<open>fs.readdirAsync\<close> rejects), the file at a path, and the engine's
  \<open>Array.prototype.sort\<close> for a comparator (the comparator of line 89 never returns 0,
  so the order of plugins with equal \<open>loadOrder\<close> is the engine's choice).
\<close>

record environment =
  readdir :: "string \<Rightarrow> string list option"
  fileAt :: "string \<Rightarrow> fs_file"
  arraySort :: "(plugin \<Rightarrow> plugin \<Rightarrow> int) \<Rightarrow> plugin list \<Rightarrow> plugin list"

text \<open>
  \<open>mods[plugin.modName]\<close>, with the registry's entries as the own properties of
  \<open>mods\<close>: an absent \<open>modName\<close> is the property key \<open>undefined\<close>.
\<close>

definition modOf :: "(string \<rightharpoonup> mod_entry) \<Rightarrow> plugin \<Rightarrow> mod_entry js_value" where
  "modOf mods p = objGet mods (case modName p of None \<Rightarrow> ''undefined'' | Some k \<Rightarrow> k)"

text \<open>
  Lines 139--147: the issue built for an archive whose version \<open>v\<close> is not the
  game's. The plugin is looked up by name among all plugins, the mod through the plugin.
\<close>

definition issueOf ::
  "gameData \<Rightarrow> plugin list \<Rightarrow> (string \<rightharpoonup> mod_entry) \<Rightarrow> IDataArchive \<Rightarrow> nat \<Rightarrow> issue" where
  "issueOf gd plugins mods archive v =
     (let plugin = find (\<lambda>p. name p = archivePlugin archive) plugins;
          owner = (case plugin of None \<Rightarrow> Undefined | Some p \<Rightarrow> modOf mods p)
      in \<lparr>issueName = archiveName archive, issueVersion = v, validVersion = version gd,
          issuePlugin = plugin, issueMod = owner\<rparr>)"

text \<open>Line 134: the reader on the archive's path in the data folder.\<close>

definition readVersion :: "environment \<Rightarrow> string \<Rightarrow> IDataArchive \<Rightarrow> nat promise" where
  "readVersion env dataFolder archive =
     streamArchiveVersion (fileAt env (path_join dataFolder (archiveName archive)))"

text \<open>
  The callback of \<open>mapSeries\<close> after its call of \<open>progress\<close>, lines 133--152: the
  promise of the callback's value (\<open>None\<close> for \<open>undefined\<close>) and the history extended.
  A rejection of the reader is caught and logged; a reader that never settles leaves the
  callback pending.
\<close>

definition checkArchive ::
  "environment \<Rightarrow> gameData \<Rightarrow> plugin list \<Rightarrow> (string \<rightharpoonup> mod_entry) \<Rightarrow> string \<Rightarrow>
   IDataArchive \<Rightarrow> effect list \<Rightarrow> issue option promise \<times> effect list" where
  "checkArchive env gd plugins mods dataFolder archive tr =
     (let tr1 = tr @ [CreateReadStream (path_join dataFolder (archiveName archive))]
      in case readVersion env dataFolder archive of
           Pending \<Rightarrow> (Pending, tr1)
         | Rejected \<Rightarrow> (Resolved None, tr1 @ [Log ''error'' ''Error checking BSA versions''])
         | Resolved v \<Rightarrow>
             (if v = version gd then (Resolved None, tr1)
              else (Resolved (Some (issueOf gd plugins mods archive v)), tr1)))"

text \<open>
  \<open>Bluebird.mapSeries\<close> over the archives, one after the other. \<open>len\<close> is
  \<open>archivesToCheck.length\<close> and \<open>pos\<close> the counter of the \<open>progress\<close> closure
  (lines 117--129), which dispatches the notification and then increments.
\<close>

fun mapSeries ::
  "environment \<Rightarrow> gameData \<Rightarrow> plugin list \<Rightarrow> (string \<rightharpoonup> mod_entry) \<Rightarrow> string \<Rightarrow> nat \<Rightarrow>
   IDataArchive list \<Rightarrow> nat \<Rightarrow> effect list \<Rightarrow> issue option list promise \<times> effect list" where
  "mapSeries env gd plugins mods dataFolder len [] pos tr = (Resolved [], tr)"
| "mapSeries env gd plugins mods dataFolder len (archive # rest) pos tr =
     (let tr1 = tr @ [AddNotification ''checking-archives-all'' (pos * 100) len
                        (archiveName archive)]
      in case checkArchive env gd plugins mods dataFolder archive tr1 of
           (Pending, tr2) \<Rightarrow> (Pending, tr2)
         | (Rejected, tr2) \<Rightarrow> (Rejected, tr2)
         | (Resolved r, tr2) \<Rightarrow>
             (case mapSeries env gd plugins mods dataFolder len rest (pos + 1) tr2 of
                (Resolved rs, tr3) \<Rightarrow> (Resolved (r # rs), tr3)
              | (Pending, tr3) \<Rightarrow> (Pending, tr3)
              | (Rejected, tr3) \<Rightarrow> (Rejected, tr3)))"

text \<open>Lines 131--153: the series, then \<open>.filter(i => !!i)\<close>.\<close>

definition detect ::
  "environment \<Rightarrow> gameData \<Rightarrow> plugin list \<Rightarrow> (string \<rightharpoonup> mod_entry) \<Rightarrow> string \<Rightarrow>
   IDataArchive list \<Rightarrow> effect list \<Rightarrow> issue list promise \<times> effect list" where
  "detect env gd plugins mods dataFolder archivesToCheck tr =
     (case mapSeries env gd plugins mods dataFolder (length archivesToCheck)
             archivesToCheck 0 tr of
        (Resolved results, tr') \<Rightarrow> (Resolved (map the (filter (\<lambda>i. i \<noteq> None) results)), tr')
      | (Pending, tr') \<Rightarrow> (Pending, tr')
      | (Rejected, tr') \<Rightarrow> (Rejected, tr'))"

text \<open>Line 89: the comparator handed to \<open>sort\<close>.\<close>

definition byLoadOrder :: "plugin \<Rightarrow> plugin \<Rightarrow> int" where
  "byLoadOrder a b = (if loadOrder a > loadOrder b then 1 else - 1)"

text \<open>Lines 96--99: the data folder, undefined when no path was discovered.\<close>

definition dataFolderOf :: "store_state \<Rightarrow> string option" where
  "dataFolderOf state =
     (case discoveredPath state (activeGameId state) of
        None \<Rightarrow> None
      | Some discovery \<Rightarrow> if discovery = [] then None else Some (path_join discovery ''data''))"

text \<open>
  Lines 104--176, the body of the \<open>try\<close> once the listing is there: correlate, stop
  when there is nothing to check, detect, dismiss the progress notification, then send
  the result notification or log that nothing was found. A rejection inside the
  \<open>try\<close> goes to the \<open>catch\<close> of line 178.
\<close>

definition checkListed ::
  "environment \<Rightarrow> gameData \<Rightarrow> plugin list \<Rightarrow> (string \<rightharpoonup> mod_entry) \<Rightarrow> string \<Rightarrow>
   string list \<Rightarrow> effect list \<Rightarrow> unit promise \<times> effect list" where
  "checkListed env gd plugins mods folder dataFiles tr =
     (let archiveLoaders = archiveLoadersOf plugins;
          dataArchives = dataArchivesOf dataFiles;
          archivesToCheck = archivesToCheckOf archiveLoaders dataArchives
      in if archivesToCheck = [] then (Resolved (), tr)
         else
           (case detect env gd plugins mods folder archivesToCheck tr of
              (Pending, tr2) \<Rightarrow> (Pending, tr2)
            | (Rejected, tr2) \<Rightarrow>
                (Resolved (), tr2 @ [Log ''error'' ''Error checking for BSA errors''])
            | (Resolved issues, tr2) \<Rightarrow>
                (let tr3 = tr2 @ [DismissNotification ''checking-archives-all'']
                 in if issues \<noteq> []
                    then (Resolved (), tr3 @ [SendNotification ''archive-errors'' issues gd])
                    else (Resolved (),
                          tr3 @ [Log ''debug''
                                   ''No issues with BA2/BSA files. Total checked:'']))))"

text \<open>
  The whole function. \<open>pluginsObj\<close> is the object of plugins by key, in the order of
  \<open>Object.keys\<close>, or \<open>None\<close> when it is null or undefined. The result is the promise
  the function returns and the history extended.
\<close>

definition checkForErrors ::
  "environment \<Rightarrow> store_state \<Rightarrow> (string \<times> plugin) list option \<Rightarrow> effect list \<Rightarrow>
   unit promise \<times> effect list" where
  "checkForErrors env state pluginsObj tr =
     (let tr0 = tr @ [DismissNotification ''archive-errors''];
          active = activeGameId state
      in case find (\<lambda>g. gameId g = active) archiveData of
           None \<Rightarrow> (Resolved (), tr0)
         | Some gd \<Rightarrow>
             (case pluginsObj of
                None \<Rightarrow> (Resolved (), tr0)
              | Some obj \<Rightarrow>
                  (let plugins = arraySort env byLoadOrder (map snd obj);
                       mods = (case persistentMods state active of
                                 None \<Rightarrow> Map.empty | Some m \<Rightarrow> m);
                       dataFolder = dataFolderOf state;
                       tr1 = tr0 @ [ReaddirAsync dataFolder];
                       failed = (Resolved (),
                                 tr1 @ [Log ''error'' ''Error checking for BSA errors''])
                   in case dataFolder of
                        None \<Rightarrow> failed
                      | Some folder \<Rightarrow>
                          (case readdir env folder of
                             None \<Rightarrow> failed
                           | Some dataFiles \<Rightarrow>
                               checkListed env gd plugins mods folder dataFiles tr1))))"




section \<open>The report grouper (\<open>showMultiErrorDetailsDialog\<close>, lines 185--220)\<close>

















section \<open>Notions of the specification\<close>

text \<open>
  The match key as the specification words it: the plugin's file name with its extension
  stripped (from the end), lower-cased. To be compared with \<open>pName\<close> of the source.
\<close>

definition specMatchKey :: "plugin \<Rightarrow> string" where
  "specMatchKey p =
     toLowerCase (take (length (name p) - length (extname (name p))) (name p))"

text \<open>
  The extension test as the specification words it: the extension, compared without
  regard to case, is one of the two archive extensions.
\<close>

definition specIsArchive :: "string \<Rightarrow> bool" where
  "specIsArchive f = (toLowerCase (extname f) \<in> set [''.ba2'', ''.bsa''])"

text \<open>Kinds of entries of a history.\<close>

fun isProgress :: "effect \<Rightarrow> bool" where
  "isProgress (AddNotification i n d m) = True"
| "isProgress e = False"

fun isResultNotification :: "effect \<Rightarrow> bool" where
  "isResultNotification (SendNotification i is gd) = True"
| "isResultNotification e = False"

fun isRead :: "effect \<Rightarrow> bool" where
  "isRead (ReaddirAsync d) = True"
| "isRead (CreateReadStream p) = True"
| "isRead e = False"

fun isLog :: "effect \<Rightarrow> bool" where
  "isLog (Log l m) = True"
| "isLog e = False"

section \<open>Notions used to state the results\<close>

text \<open>
  The value the callback of the series gives for one archive whose reader settles: no
  issue when the version is the game's, the issue of lines 141--147 otherwise.
\<close>

definition outcomeOf ::
  "environment \<Rightarrow> gameData \<Rightarrow> plugin list \<Rightarrow> (string \<rightharpoonup> mod_entry) \<Rightarrow> string \<Rightarrow>
   IDataArchive \<Rightarrow> issue option" where
  "outcomeOf env gd plugins mods d c =
     (case readVersion env d c of
        Resolved v \<Rightarrow> if v = version gd then None else Some (issueOf gd plugins mods c v)
      | _ \<Rightarrow> None)"

text \<open>
  The entries a series adds to the history: for each archive the progress notification
  and the opening of the stream, up to and including the first archive whose reader
  never settles.
\<close>

fun entriesOf :: "environment \<Rightarrow> string \<Rightarrow> nat \<Rightarrow> IDataArchive list \<Rightarrow> nat \<Rightarrow> effect list" where
  "entriesOf env d len [] pos = []"
| "entriesOf env d len (c # cs) pos =
     [AddNotification ''checking-archives-all'' (pos * 100) len (archiveName c),
      CreateReadStream (path_join d (archiveName c))]
     @ (if readVersion env d c = Pending then [] else entriesOf env d len cs (pos + 1))"





section \<open>An installation to run the pipeline on\<close>

text \<open>
  Skyrim Special Edition, discovered at \<open>/games/skyrimse\<close>. Two plugins load archives:
  \<open>Mod.esp\<close>, owned by the mod \<open>mod-a\<close>, and \<open>Mod - Extra.esp\<close>, owned by no mod; the
  game's own \<open>Skyrim.esm\<close> is native. The data folder holds \<open>mod.bsa\<close> (version 105)
  and \<open>mod - extra.bsa\<close>, whose content is a parameter. The names of both plugins,
  without extension and lower-cased, are prefixes of \<open>mod - extra.bsa\<close>.
\<close>

fun insertBy :: "(plugin \<Rightarrow> plugin \<Rightarrow> int) \<Rightarrow> plugin \<Rightarrow> plugin list \<Rightarrow> plugin list" where
  "insertBy cmp x [] = [x]"
| "insertBy cmp x (y # ys) = (if cmp x y > 0 then y # insertBy cmp x ys else x # y # ys)"

definition insertionSort :: "(plugin \<Rightarrow> plugin \<Rightarrow> int) \<Rightarrow> plugin list \<Rightarrow> plugin list" where
  "insertionSort cmp xs = foldr (insertBy cmp) xs []"

definition modPlugin :: plugin where
  "modPlugin = \<lparr>name = ''Mod.esp'', isNative = False, loadsArchive = True, enabled = True,
                loadOrder = 1, modName = Some ''mod-a''\<rparr>"

definition extraPlugin :: plugin where
  "extraPlugin = \<lparr>name = ''Mod - Extra.esp'', isNative = False, loadsArchive = True,
                  enabled = True, loadOrder = 2, modName = None\<rparr>"

definition nativePlugin :: plugin where
  "nativePlugin = \<lparr>name = ''Skyrim.esm'', isNative = True, loadsArchive = True,
                   enabled = True, loadOrder = 0, modName = None\<rparr>"

definition examplePluginsObj :: "(string \<times> plugin) list" where
  "examplePluginsObj =
     [(''mod - extra.esp'', extraPlugin), (''mod.esp'', modPlugin), (''skyrim.esm'', nativePlugin)]"

definition examplePlugins :: "plugin list" where
  "examplePlugins = [nativePlugin, modPlugin, extraPlugin]"

definition exampleListing :: "string list" where
  "exampleListing = [''Skyrim - Textures.bsa'', ''mod.bsa'', ''mod - extra.bsa'', ''readme.txt'']"

definition exampleEnv :: "byte list \<Rightarrow> environment" where
  "exampleEnv extra =
     \<lparr>readdir = (\<lambda>d. if d = ''/games/skyrimse/data'' then Some exampleListing else None),
      fileAt = (\<lambda>p. if p = ''/games/skyrimse/data/mod.bsa''
                       then Readable [66, 83, 65, 0, 105, 0, 0, 0, 36]
                     else if p = ''/games/skyrimse/data/mod - extra.bsa'' then Readable extra
                     else Unreadable),
      arraySort = insertionSort\<rparr>"

definition exampleMod :: mod_entry where
  "exampleMod = \<lparr>modId = ''mod-a'',
                 attributes = \<lparr>customName = None, logicalFileName = Some ''Mod A'',
                                attrName = Some ''mod_a''\<rparr>\<rparr>"

definition exampleMods :: "string \<rightharpoonup> mod_entry" where
  "exampleMods = (\<lambda>k. if k = ''mod-a'' then Some exampleMod else None)"

definition exampleState :: "string \<Rightarrow> string option \<Rightarrow> store_state" where
  "exampleState game discovery =
     \<lparr>activeGameId = game,
      persistentMods = (\<lambda>g. if g = ''skyrimse'' then Some exampleMods else None),
      discoveredPath = (\<lambda>g. if g = game then discovery else None),
      notifications = []\<rparr>"

definition skyrimse :: gameData where
  "skyrimse = \<lparr>gameId = ''skyrimse'', gameName = ''Skyrim Special Edition'', version = 105,
               archiveType = ''BSA''\<rparr>"

definition exampleCandidates :: "IDataArchive list" where
  "exampleCandidates =
     [\<lparr>archiveName = ''mod.bsa'', archivePlugin = ''Mod.esp''\<rparr>,
      \<lparr>archiveName = ''mod - extra.bsa'', archivePlugin = ''Mod.esp''\<rparr>,
      \<lparr>archiveName = ''mod - extra.bsa'', archivePlugin = ''Mod - Extra.esp''\<rparr>]"

definition exampleIssue :: "plugin \<Rightarrow> mod_entry js_value \<Rightarrow> issue" where
  "exampleIssue p owner =
     \<lparr>issueName = ''mod - extra.bsa'', issueVersion = 104, validVersion = 105,
      issuePlugin = Some p, issueMod = owner\<rparr>"


text \<open>
  The same installation with an empty \<open>mod.bsa\<close> and a \<open>mod - extra.bsa\<close> of
  version 104.
\<close>

definition stalledEnv :: environment where
  "stalledEnv =
     \<lparr>readdir = (\<lambda>d. if d = ''/games/skyrimse/data'' then Some exampleListing else None),
      fileAt = (\<lambda>p. if p = ''/games/skyrimse/data/mod.bsa'' then Readable []
                     else if p = ''/games/skyrimse/data/mod - extra.bsa''
                       then Readable [66, 83, 65, 0, 104, 0, 0, 0, 36]
                     else Unreadable),
      arraySort = insertionSort\<rparr>"

text \<open>
  A plugin whose \<open>modName\<close> is a name every object inherits and that the registry does
  not hold, and a mod whose identifier is such a name.
\<close>

definition oddPlugin :: plugin where
  "oddPlugin = \<lparr>name = ''Mod.esp'', isNative = False, loadsArchive = True, enabled = True,
                loadOrder = 1, modName = Some ''constructor''\<rparr>"


section \<open>The header reader: results\<close>

lemma upt_9: "[0..<9] = [0, 1, 2, 3, 4, 5, 6, 7, 8]"
  by (simp add: upt_rec)

text \<open>
  What the \<open>data\<close> handler resolves with, for any non-empty chunk: the buffer holds the
  chunk repeated, so positions 4..7 hold the chunk's bytes at those indices modulo its
  length.
\<close>

lemma on_data_nonempty:
  "chunk \<noteq> [] \<Longrightarrow>
   on_data chunk =
     Some (unat (chunk ! (4 mod length chunk)) + unat (chunk ! (5 mod length chunk))
         + unat (chunk ! (6 mod length chunk)) + unat (chunk ! (7 mod length chunk)))"
  by (simp add: on_data_def Buffer_fill_def Buffer_alloc_def Buffer_slice_def upt_9)

lemma streamArchiveVersion_not_Rejected: "streamArchiveVersion f \<noteq> Rejected"
  by (cases f) (auto simp: streamArchiveVersion_def createReadStream_def on_data_nonempty)

lemma streamArchiveVersion_empty: "streamArchiveVersion (Readable []) = Pending"
  by (simp add: streamArchiveVersion_def createReadStream_def)

lemma streamArchiveVersion_Pending_iff:
  "streamArchiveVersion f = Pending \<longleftrightarrow> f = Readable []"
  by (cases f) (auto simp: streamArchiveVersion_def createReadStream_def on_data_nonempty)

text \<open>
  A file shorter than nine bytes is not detected. When it is not empty, the nine-byte
  buffer holds its bytes repeated and the reader resolves with the sum of the bytes at
  offsets 4 to 7 taken modulo the file's length.
\<close>

lemma streamArchiveVersion_short:
  assumes "0 < length content" "length content < 9"
  shows "streamArchiveVersion (Readable content) =
          Resolved (unat (content ! (4 mod length content))
                    + unat (content ! (5 mod length content))
                    + unat (content ! (6 mod length content))
                    + unat (content ! (7 mod length content)))"
  using assms by (auto simp: streamArchiveVersion_def createReadStream_def on_data_nonempty)

text \<open>
  C1, as the code has it. For a file of at least nine bytes the reader resolves with the
  unsigned sum of the bytes at offsets 4 to 7. For a file that cannot be read it resolves
  with the sentinel 0. It never rejects, whatever the file.
\<close>

theorem streamArchiveVersion_result:
  "(9 \<le> length content \<longrightarrow>
      streamArchiveVersion (Readable content) =
        Resolved (unat (content ! 4) + unat (content ! 5) + unat (content ! 6)
                  + unat (content ! 7)))
   \<and> streamArchiveVersion Unreadable = Resolved 0
   \<and> streamArchiveVersion f \<noteq> Rejected"
proof -
  have long: "streamArchiveVersion (Readable content) =
        Resolved (unat (content ! 4) + unat (content ! 5) + unat (content ! 6)
                  + unat (content ! 7))" if "9 \<le> length content"
    using that by (auto simp: streamArchiveVersion_def createReadStream_def on_data_nonempty)
  have unreadable: "streamArchiveVersion Unreadable = Resolved 0"
    by (simp add: streamArchiveVersion_def createReadStream_def)
  from long unreadable streamArchiveVersion_not_Rejected show ?thesis
    by blast
qed

text \<open>
  The theorem at a ten-byte file with the bytes 5, 6, 7, 8 at offsets 4 to 7.
\<close>

theorem streamArchiveVersion_result_witness:
  "9 \<le> length [1, 2, 3, 4, 5, 6, 7, 8, 9, 10 :: byte]
   \<and> streamArchiveVersion (Readable [1, 2, 3, 4, 5, 6, 7, 8, 9, 10]) = Resolved 26
   \<and> streamArchiveVersion Unreadable = Resolved 0"
  using streamArchiveVersion_result [of "[1, 2, 3, 4, 5, 6, 7, 8, 9, 10]"]
  by simp

text \<open>
  C1 as stated fails: a header cut off after eight bytes is a file shorter than nine
  bytes, and the reader resolves with 105 for it, not with the sentinel 0.
\<close>

theorem short_file_not_sentinel:
  "length [0, 0, 0, 0, 105, 0, 0, 0 :: byte] < 9
   \<and> streamArchiveVersion (Readable [0, 0, 0, 0, 105, 0, 0, 0]) = Resolved 105"
  by (simp add: streamArchiveVersion_def createReadStream_def on_data_nonempty)

section \<open>The correlator: results\<close>

text \<open>
  C2, the code at an upper-case extension. \<open>FOO.BSA\<close> has an archive extension when
  case is disregarded, yet line 105 compares \<open>.BSA\<close> with \<open>.ba2\<close> and \<open>.bsa\<close> as
  they are: the file is filtered out and the plugin \<open>Foo.esp\<close> gets no candidate for
  it, while the lower-case \<open>foo.bsa\<close> is kept and matched.
\<close>

theorem upper_case_extension_dropped:
  "specIsArchive ''FOO.BSA''
   \<and> extname ''FOO.BSA'' = ''.BSA''
   \<and> dataArchivesOf [''FOO.BSA''] = []
   \<and> archivesToCheckOf
        [\<lparr>name = ''Foo.esp'', isNative = False, loadsArchive = True, enabled = True,
          loadOrder = 0, modName = None\<rparr>]
        (dataArchivesOf [''FOO.BSA'']) = []
   \<and> archivesToCheckOf
        [\<lparr>name = ''Foo.esp'', isNative = False, loadsArchive = True, enabled = True,
          loadOrder = 0, modName = None\<rparr>]
        (dataArchivesOf [''foo.bsa'']) = [\<lparr>archiveName = ''foo.bsa'', archivePlugin = ''Foo.esp''\<rparr>]"
  by code_simp

text \<open>
  The examples of the specification: the key of \<open>Foo.esp\<close> is \<open>foo\<close>, which is a
  prefix of \<open>foo - textures.bsa\<close> and not of \<open>barfoo.bsa\<close>.
\<close>

lemma foo_esp_candidates:
  "pName \<lparr>name = ''Foo.esp'', isNative = False, loadsArchive = True, enabled = True,
          loadOrder = 0, modName = None\<rparr> = ''foo''
   \<and> archivesToCheckOf
        [\<lparr>name = ''Foo.esp'', isNative = False, loadsArchive = True, enabled = True,
          loadOrder = 0, modName = None\<rparr>]
        (dataArchivesOf [''foo - textures.bsa'', ''barfoo.bsa''])
       = [\<lparr>archiveName = ''foo - textures.bsa'', archivePlugin = ''Foo.esp''\<rparr>]"
  by code_simp

text \<open>
  C3, the code at a plugin name in which the text of the extension occurs twice. Line 107
  removes the first occurrence of \<open>.esp\<close>, not the extension at the end, so the key of
  \<open>Foo.esp.bak.esp\<close> is \<open>foo.bak.esp\<close> where the name without its extension,
  lower-cased, is \<open>foo.esp.bak\<close>. The archive \<open>foo.esp.bak.bsa\<close> starts with the
  latter and gets no candidate; the archive \<open>foo.bak.esp.bsa\<close> does not and gets one.
\<close>

theorem match_key_first_occurrence:
  "pName \<lparr>name = ''Foo.esp.bak.esp'', isNative = False, loadsArchive = True, enabled = True,
          loadOrder = 0, modName = None\<rparr> = ''foo.bak.esp''
   \<and> specMatchKey \<lparr>name = ''Foo.esp.bak.esp'', isNative = False, loadsArchive = True,
          enabled = True, loadOrder = 0, modName = None\<rparr> = ''foo.esp.bak''
   \<and> startsWith (toLowerCase (basename ''foo.esp.bak.bsa'')) ''foo.esp.bak''
   \<and> \<not> startsWith (toLowerCase (basename ''foo.bak.esp.bsa'')) ''foo.esp.bak''
   \<and> archivesToCheckOf
        [\<lparr>name = ''Foo.esp.bak.esp'', isNative = False, loadsArchive = True, enabled = True,
          loadOrder = 0, modName = None\<rparr>]
        (dataArchivesOf [''foo.esp.bak.bsa'', ''foo.bak.esp.bsa''])
       = [\<lparr>archiveName = ''foo.bak.esp.bsa'', archivePlugin = ''Foo.esp.bak.esp''\<rparr>]"
  by code_simp

lemma foldl_append_acc: "foldl (\<lambda>prev cur. prev @ cur) acc xss = acc @ concat xss"
  by (induction xss arbitrary: acc) simp_all

lemma archivesToCheckOf_concat:
  "archivesToCheckOf loaders archives =
     concat (map (\<lambda>p. map (\<lambda>a. \<lparr>archiveName = a, archivePlugin = name p\<rparr>)
                          (filter (\<lambda>a. matchesPlugin p a) archives)) loaders)"
  by (simp add: archivesToCheckOf_def foldl_append_acc)

lemma filter_eq_distinct:
  "distinct xs \<Longrightarrow> filter (\<lambda>x. x = a) xs = (if a \<in> set xs then [a] else [])"
  by (induction xs) auto

text \<open>
  The candidates of one archive of a listing without repetition are its matching
  plugins, in the order of the plugins.
\<close>

lemma candidates_of_archive:
  assumes "distinct archives" "a \<in> set archives"
  shows "map archivePlugin (filter (\<lambda>c. archiveName c = a) (archivesToCheckOf loaders archives))
         = map name (filter (\<lambda>p. matchesPlugin p a) loaders)"
proof -
  have one: "map archivePlugin (filter (\<lambda>c. archiveName c = a)
                (map (\<lambda>a. \<lparr>archiveName = a, archivePlugin = name p\<rparr>)
                     (filter (\<lambda>a. matchesPlugin p a) archives)))
             = (if matchesPlugin p a then [name p] else [])" for p
  proof -
    have "filter (\<lambda>x. x = a) (filter (\<lambda>a. matchesPlugin p a) archives)
          = (if matchesPlugin p a then [a] else [])"
      using assms filter_eq_distinct [of "filter (\<lambda>a. matchesPlugin p a) archives" a]
      by (simp del: filter_filter)
    then show ?thesis
      by (simp add: filter_map comp_def split: if_splits)
  qed
  show ?thesis
    unfolding archivesToCheckOf_concat
    by (induction loaders) (simp_all add: one)
qed

lemma candidate_set:
  "c \<in> set (archivesToCheckOf loaders archives) \<longleftrightarrow>
   (\<exists>p\<in>set loaders. archivePlugin c = name p \<and> archiveName c \<in> set archives
       \<and> matchesPlugin p (archiveName c))"
  unfolding archivesToCheckOf_concat by (cases c) auto

section \<open>The detector: results\<close>

lemma readVersion_not_Rejected: "readVersion env d c \<noteq> Rejected"
  by (simp add: readVersion_def streamArchiveVersion_not_Rejected)

lemma readVersion_cases:
  "readVersion env d c \<noteq> Pending \<Longrightarrow> \<exists>v. readVersion env d c = Resolved v"
  using readVersion_not_Rejected [of env d c] by (cases "readVersion env d c") auto

lemma issueOf_fields:
  "issueOf gd plugins mods c v =
     \<lparr>issueName = archiveName c, issueVersion = v, validVersion = version gd,
      issuePlugin = find (\<lambda>p. name p = archivePlugin c) plugins,
      issueMod = (case find (\<lambda>p. name p = archivePlugin c) plugins of
                    None \<Rightarrow> Undefined | Some p \<Rightarrow> modOf mods p)\<rparr>"
  by (simp add: issueOf_def Let_def)

lemma checkArchive_fst:
  "fst (checkArchive env gd plugins mods d c tr) =
     (if readVersion env d c = Pending then Pending
      else Resolved (outcomeOf env gd plugins mods d c))"
  by (auto simp: checkArchive_def outcomeOf_def Let_def split: promise.splits)

lemma checkArchive_snd:
  "snd (checkArchive env gd plugins mods d c tr) =
     tr @ [CreateReadStream (path_join d (archiveName c))]"
  using readVersion_not_Rejected [of env d c]
  by (auto simp: checkArchive_def Let_def split: promise.splits)

lemma checkArchive_eq:
  "checkArchive env gd plugins mods d c tr =
     (if readVersion env d c = Pending then Pending
      else Resolved (outcomeOf env gd plugins mods d c),
      tr @ [CreateReadStream (path_join d (archiveName c))])"
  using checkArchive_fst [of env gd plugins mods d c tr]
    checkArchive_snd [of env gd plugins mods d c tr]
  by (simp add: prod_eq_iff)

text \<open>
  The series as a whole: it is pending exactly when some reader never settles, it resolves
  with the callback's values in the order of the archives otherwise, and what it adds to
  the history does not depend on the history.
\<close>

lemma mapSeries_eq:
  "mapSeries env gd plugins mods d len cands pos tr =
     (if \<exists>c\<in>set cands. readVersion env d c = Pending then Pending
      else Resolved (map (outcomeOf env gd plugins mods d) cands),
      tr @ entriesOf env d len cands pos)"
proof (induction cands arbitrary: pos tr)
  case Nil
  then show ?case by simp
next
  case (Cons c cands)
  show ?case
    by (simp add: checkArchive_eq Cons.IH Let_def)
qed

lemma entriesOf_kinds: "e \<in> set (entriesOf env d len cands pos) \<Longrightarrow> isProgress e \<or> isRead e"
  by (induction cands arbitrary: pos) (auto split: if_splits)

lemma dismiss_not_in_entries:
  "DismissNotification n \<notin> set (entriesOf env d len cands pos)"
  using entriesOf_kinds [of "DismissNotification n" env d len cands pos] by auto

lemma detect_eq:
  "detect env gd plugins mods d cands tr =
     (if \<exists>c\<in>set cands. readVersion env d c = Pending then Pending
      else Resolved (map the (filter (\<lambda>i. i \<noteq> None)
                                (map (outcomeOf env gd plugins mods d) cands))),
      tr @ entriesOf env d (length cands) cands 0)"
  by (simp add: detect_def mapSeries_eq)

lemma issues_of_archive:
  assumes "\<forall>c\<in>set cs. readVersion env d c \<noteq> Pending"
    and "streamArchiveVersion (fileAt env (path_join d a)) = Resolved v"
    and "v \<noteq> version gd"
  shows "filter (\<lambda>i. issueName i = a)
           (map the (filter (\<lambda>i. i \<noteq> None) (map (outcomeOf env gd plugins mods d) cs)))
         = map (\<lambda>c. issueOf gd plugins mods c v) (filter (\<lambda>c. archiveName c = a) cs)"
  using assms(1)
proof (induction cs)
  case Nil
  then show ?case by simp
next
  case (Cons c cs)
  then obtain w where w: "readVersion env d c = Resolved w"
    using readVersion_cases [of env d c] by auto
  show ?case
  proof (cases "archiveName c = a")
    case True
    with w assms(2) have "w = v" by (simp add: readVersion_def)
    with True w assms(3) Cons show ?thesis
      by (simp add: outcomeOf_def issueOf_fields)
  next
    case False
    with w Cons show ?thesis
      by (simp add: outcomeOf_def issueOf_fields)
  qed
qed

lemma find_name:
  "p \<in> set plugins \<Longrightarrow> \<exists>q. find (\<lambda>q. name q = name p) plugins = Some q \<and> name q = name p"
  by (cases "find (\<lambda>q. name q = name p) plugins")
    (auto simp: find_None_iff dest: find_Some_iff [THEN iffD1])

text \<open>
  Batches whose readers all settle. Take an archive that passed the filter of line 105,
  in a listing without repeated names. The candidates for it are exactly its matching
  plugins among the enabled, non-native, archive-loading ones, one candidate per plugin
  and in their order: \<open>N\<close> matching plugins give \<open>N\<close> candidates. When
  moreover every reader of the batch settles and the archive's version
  \<open>v\<close> is not the game's, the detector resolves with a sequence of issues whose
  entries for this archive are again one per matching plugin, in the same order, each with
  the detected version, the expected version and that plugin.
\<close>

lemma matches_reported_when_settled:
  assumes dist: "distinct dataFiles"
    and a: "a \<in> set (dataArchivesOf dataFiles)"
  shows "map archivePlugin
           (filter (\<lambda>c. archiveName c = a)
              (archivesToCheckOf (archiveLoadersOf plugins) (dataArchivesOf dataFiles)))
         = map name (filter (\<lambda>p. matchesPlugin p a) (archiveLoadersOf plugins))
     \<and> ((\<forall>c\<in>set (archivesToCheckOf (archiveLoadersOf plugins) (dataArchivesOf dataFiles)).
            readVersion env d c \<noteq> Pending)
         \<and> streamArchiveVersion (fileAt env (path_join d a)) = Resolved v \<and> v \<noteq> version gd
         \<longrightarrow> (\<exists>issues tr'.
               detect env gd plugins mods d
                 (archivesToCheckOf (archiveLoadersOf plugins) (dataArchivesOf dataFiles)) tr
               = (Resolved issues, tr')
               \<and> map (\<lambda>i. (issueVersion i, validVersion i, map_option name (issuePlugin i)))
                     (filter (\<lambda>i. issueName i = a) issues)
                 = map (\<lambda>p. (v, version gd, Some (name p)))
                     (filter (\<lambda>p. matchesPlugin p a) (archiveLoadersOf plugins))))"
proof -
  let ?loaders = "archiveLoadersOf plugins"
  let ?cands = "archivesToCheckOf ?loaders (dataArchivesOf dataFiles)"
  have d2: "distinct (dataArchivesOf dataFiles)"
    using dist by (simp add: dataArchivesOf_def)
  have A: "map archivePlugin (filter (\<lambda>c. archiveName c = a) ?cands)
         = map name (filter (\<lambda>p. matchesPlugin p a) ?loaders)"
    using candidates_of_archive [OF d2 a] .
  have B: "\<exists>issues tr'. detect env gd plugins mods d ?cands tr = (Resolved issues, tr')
               \<and> map (\<lambda>i. (issueVersion i, validVersion i, map_option name (issuePlugin i)))
                     (filter (\<lambda>i. issueName i = a) issues)
                 = map (\<lambda>p. (v, version gd, Some (name p)))
                     (filter (\<lambda>p. matchesPlugin p a) ?loaders)"
    if settle: "\<forall>c\<in>set ?cands. readVersion env d c \<noteq> Pending"
      and v: "streamArchiveVersion (fileAt env (path_join d a)) = Resolved v" "v \<noteq> version gd"
  proof -
    let ?issues = "map the (filter (\<lambda>i. i \<noteq> None) (map (outcomeOf env gd plugins mods d) ?cands))"
    have det: "detect env gd plugins mods d ?cands tr =
                 (Resolved ?issues, tr @ entriesOf env d (length ?cands) ?cands 0)"
      using settle by (simp add: detect_eq)
    have found: "map_option name (find (\<lambda>p. name p = archivePlugin c) plugins)
                 = Some (archivePlugin c)" if "c \<in> set ?cands" for c
    proof -
      from that obtain p where "p \<in> set ?loaders" "archivePlugin c = name p"
        by (auto simp: candidate_set)
      then have "p \<in> set plugins" by (simp add: archiveLoadersOf_def)
      with \<open>archivePlugin c = name p\<close> show ?thesis
        using find_name [of p plugins] by auto
    qed
    have step: "filter (\<lambda>i. issueName i = a) ?issues
                = map (\<lambda>c. issueOf gd plugins mods c v) (filter (\<lambda>c. archiveName c = a) ?cands)"
      by (rule issues_of_archive [OF settle v])
    have "map (\<lambda>i. (issueVersion i, validVersion i, map_option name (issuePlugin i)))
             (filter (\<lambda>i. issueName i = a) ?issues)
          = map (\<lambda>c. (v, version gd, Some (archivePlugin c))) (filter (\<lambda>c. archiveName c = a) ?cands)"
      unfolding step map_map
      by (rule map_cong) (auto simp: issueOf_fields found)
    also have "\<dots> = map (\<lambda>n. (v, version gd, Some n))
                       (map archivePlugin (filter (\<lambda>c. archiveName c = a) ?cands))"
      by (simp add: comp_def)
    also have "\<dots> = map (\<lambda>p. (v, version gd, Some (name p)))
                     (filter (\<lambda>p. matchesPlugin p a) ?loaders)"
      by (simp add: A comp_def)
    finally show ?thesis using det by blast
  qed
  from A B show ?thesis by blast
qed

text \<open>
  On the example installation: \<open>mod - extra.bsa\<close> (version 104, the game
  expects 105) is matched by \<open>Mod.esp\<close> and by \<open>Mod - Extra.esp\<close>, and is reported
  twice.
\<close>

lemma matches_reported_example:
  "map archivePlugin
     (filter (\<lambda>c. archiveName c = ''mod - extra.bsa'')
        (archivesToCheckOf (archiveLoadersOf examplePlugins) (dataArchivesOf exampleListing)))
   = [''Mod.esp'', ''Mod - Extra.esp'']
   \<and> (\<exists>issues tr'.
        detect (exampleEnv [66, 83, 65, 0, 104, 0, 0, 0, 36]) skyrimse examplePlugins exampleMods
          ''/games/skyrimse/data''
          (archivesToCheckOf (archiveLoadersOf examplePlugins) (dataArchivesOf exampleListing)) []
        = (Resolved issues, tr')
        \<and> map (\<lambda>i. (issueVersion i, validVersion i, map_option name (issuePlugin i)))
              (filter (\<lambda>i. issueName i = ''mod - extra.bsa'') issues)
          = [(104, 105, Some ''Mod.esp''), (104, 105, Some ''Mod - Extra.esp'')])"
proof -
  let ?env = "exampleEnv [66, 83, 65, 0, 104, 0, 0, 0, 36]"
  have h1: "distinct exampleListing" by code_simp
  have h2: "''mod - extra.bsa'' \<in> set (dataArchivesOf exampleListing)" by code_simp
  have h3: "\<forall>c\<in>set (archivesToCheckOf (archiveLoadersOf examplePlugins)
                        (dataArchivesOf exampleListing)).
              readVersion ?env ''/games/skyrimse/data'' c \<noteq> Pending"
    by code_simp
  have h4: "streamArchiveVersion
              (fileAt ?env (path_join ''/games/skyrimse/data'' ''mod - extra.bsa''))
            = Resolved 104"
    by code_simp
  have h5: "(104 :: nat) \<noteq> version skyrimse" by code_simp
  have r1: "map name (filter (\<lambda>p. matchesPlugin p ''mod - extra.bsa'')
                        (archiveLoadersOf examplePlugins))
            = [''Mod.esp'', ''Mod - Extra.esp'']"
    by code_simp
  have r2: "map (\<lambda>p. (104 :: nat, version skyrimse, Some (name p)))
               (filter (\<lambda>p. matchesPlugin p ''mod - extra.bsa'')
                  (archiveLoadersOf examplePlugins))
            = [(104, 105, Some ''Mod.esp''), (104, 105, Some ''Mod - Extra.esp'')]"
    by code_simp
  from matches_reported_when_settled [OF h1 h2, where plugins = examplePlugins and env = ?env
      and d = "''/games/skyrimse/data''" and v = 104 and gd = skyrimse and mods = exampleMods
      and tr = "[]"] h3 h4 h5
  show ?thesis
    unfolding r1 r2 by blast
qed

text \<open>
  When every reader of the batch settles, the detector resolves, and its issues are
  what the candidates give one by one, in order: a candidate whose version equals the
  game's expected version gives nothing; a candidate whose version differs gives one
  issue with the archive's name, the detected version, the expected version, the plugin
  found by the candidate's plugin name among all plugins, and what the registry object
  gives under that plugin's \<open>modName\<close>.
\<close>

lemma detect_issues_when_settled:
  assumes settle: "\<forall>c\<in>set cands. readVersion env d c \<noteq> Pending"
  shows "\<exists>tr'. detect env gd plugins mods d cands tr =
     (Resolved (List.map_filter
        (\<lambda>c. case readVersion env d c of
               Resolved v \<Rightarrow>
                 if v = version gd then None
                 else Some \<lparr>issueName = archiveName c, issueVersion = v,
                            validVersion = version gd,
                            issuePlugin = find (\<lambda>p. name p = archivePlugin c) plugins,
                            issueMod = (case find (\<lambda>p. name p = archivePlugin c) plugins of
                                          None \<Rightarrow> Undefined | Some p \<Rightarrow> modOf mods p)\<rparr>
             | _ \<Rightarrow> None) cands), tr')"
proof -
  have "(\<lambda>c. case readVersion env d c of
               Resolved v \<Rightarrow>
                 if v = version gd then None
                 else Some \<lparr>issueName = archiveName c, issueVersion = v,
                            validVersion = version gd,
                            issuePlugin = find (\<lambda>p. name p = archivePlugin c) plugins,
                            issueMod = (case find (\<lambda>p. name p = archivePlugin c) plugins of
                                          None \<Rightarrow> Undefined | Some p \<Rightarrow> modOf mods p)\<rparr>
             | _ \<Rightarrow> None) = outcomeOf env gd plugins mods d"
    by (rule ext) (simp add: outcomeOf_def issueOf_fields split: promise.splits)
  then show ?thesis
    using settle by (simp add: detect_eq map_filter_def filter_map comp_def)
qed

text \<open>
  On the example installation: of the three candidates, \<open>mod.bsa\<close> has
  the expected version and gives nothing; \<open>mod - extra.bsa\<close> gives one issue for
  \<open>Mod.esp\<close>, with its mod, and one for \<open>Mod - Extra.esp\<close>, without a mod.
\<close>

lemma detect_issues_example:
  "\<exists>tr'. detect (exampleEnv [66, 83, 65, 0, 104, 0, 0, 0, 36]) skyrimse examplePlugins
           exampleMods ''/games/skyrimse/data'' exampleCandidates []
         = (Resolved [exampleIssue modPlugin (Own exampleMod), exampleIssue extraPlugin Undefined],
            tr')"
proof -
  let ?env = "exampleEnv [66, 83, 65, 0, 104, 0, 0, 0, 36]"
  have h: "\<forall>c\<in>set exampleCandidates. readVersion ?env ''/games/skyrimse/data'' c \<noteq> Pending"
    by code_simp
  have r: "List.map_filter
        (\<lambda>c. case readVersion ?env ''/games/skyrimse/data'' c of
               Resolved v \<Rightarrow>
                 if v = version skyrimse then None
                 else Some \<lparr>issueName = archiveName c, issueVersion = v,
                            validVersion = version skyrimse,
                            issuePlugin = find (\<lambda>p. name p = archivePlugin c) examplePlugins,
                            issueMod = (case find (\<lambda>p. name p = archivePlugin c) examplePlugins of
                                          None \<Rightarrow> Undefined | Some p \<Rightarrow> modOf exampleMods p)\<rparr>
             | _ \<Rightarrow> None) exampleCandidates
      = [exampleIssue modPlugin (Own exampleMod), exampleIssue extraPlugin Undefined]"
    by code_simp
  from detect_issues_when_settled [OF h, of skyrimse examplePlugins exampleMods "[]"]
  show ?thesis unfolding r .
qed

text \<open>A candidate's plugin is always found among the plugins.\<close>

lemma candidate_plugin_found:
  assumes "c \<in> set (archivesToCheckOf (archiveLoadersOf plugins) archives)"
  shows "\<exists>q. find (\<lambda>p. name p = archivePlugin c) plugins = Some q"
proof -
  from assms obtain p where "p \<in> set (archiveLoadersOf plugins)" "archivePlugin c = name p"
    by (auto simp: candidate_set)
  then have "p \<in> set plugins" by (simp add: archiveLoadersOf_def)
  with \<open>archivePlugin c = name p\<close> show ?thesis
    using find_name [of p plugins] by auto
qed

text \<open>
  C4, the code on two inputs. First, the example installation with an empty
  \<open>mod.bsa\<close>: \<open>mod - extra.bsa\<close> is matched by two plugins and gets two candidates,
  its version 104 is not the 105 the game expects, yet the reader of the empty file never
  settles, the series stops at it and the run stays pending after one progress
  notification: no issue is emitted for the archive, where the specification has two. Second, a
  listing that names the archive \<open>MOD - EXTRA.BSA\<close>: both plugins' keys are prefixes
  of its lower-cased name, yet line 105 drops it and it gets no candidate at all.
\<close>

theorem matched_archive_without_issues:
  "map archivePlugin
     (filter (\<lambda>c. archiveName c = ''mod - extra.bsa'')
        (archivesToCheckOf (archiveLoadersOf examplePlugins) (dataArchivesOf exampleListing)))
   = [''Mod.esp'', ''Mod - Extra.esp'']
   \<and> streamArchiveVersion (fileAt stalledEnv ''/games/skyrimse/data/mod - extra.bsa'')
     = Resolved 104
   \<and> version skyrimse = 105
   \<and> detect stalledEnv skyrimse examplePlugins exampleMods ''/games/skyrimse/data''
        (archivesToCheckOf (archiveLoadersOf examplePlugins) (dataArchivesOf exampleListing)) []
     = (Pending,
        [AddNotification ''checking-archives-all'' 0 3 ''mod.bsa'',
         CreateReadStream ''/games/skyrimse/data/mod.bsa''])
   \<and> checkForErrors stalledEnv (exampleState ''skyrimse'' (Some ''/games/skyrimse''))
        (Some examplePluginsObj) []
     = (Pending,
        [DismissNotification ''archive-errors'', ReaddirAsync (Some ''/games/skyrimse/data''),
         AddNotification ''checking-archives-all'' 0 3 ''mod.bsa'',
         CreateReadStream ''/games/skyrimse/data/mod.bsa''])
   \<and> startsWith (toLowerCase (basename ''MOD - EXTRA.BSA'')) (pName modPlugin)
   \<and> startsWith (toLowerCase (basename ''MOD - EXTRA.BSA'')) (pName extraPlugin)
   \<and> archivesToCheckOf (archiveLoadersOf examplePlugins) (dataArchivesOf [''MOD - EXTRA.BSA''])
     = []"
  by code_simp

text \<open>
  C5, the code on two inputs. First, the batch of the example installation with an empty
  \<open>mod.bsa\<close>: for the candidate \<open>mod - extra.bsa\<close> of \<open>Mod.esp\<close> the reader
  gives 104, which differs from the expected 105, but the detector stays pending behind
  the empty file and emits no issue for it. Second, a plugin whose \<open>modName\<close> is
  \<open>constructor\<close>, which the registry does not hold: the issue built for its archive
  carries the member every object inherits under that name, not an absent mod.
\<close>

theorem mismatch_without_issue:
  "readVersion stalledEnv ''/games/skyrimse/data''
     \<lparr>archiveName = ''mod - extra.bsa'', archivePlugin = ''Mod.esp''\<rparr> = Resolved 104
   \<and> version skyrimse = 105
   \<and> fst (detect stalledEnv skyrimse examplePlugins exampleMods ''/games/skyrimse/data''
            exampleCandidates []) = Pending
   \<and> exampleMods ''constructor'' = None
   \<and> issueMod (issueOf skyrimse [oddPlugin] exampleMods
                 \<lparr>archiveName = ''mod - extra.bsa'', archivePlugin = ''Mod.esp''\<rparr> 104)
     = Inherited ''constructor''"
  by code_simp

section \<open>The pipeline: results\<close>

lemma find_game_None:
  "activeGameId state \<notin> set (map gameId archiveData) \<Longrightarrow>
   find (\<lambda>g. gameId g = activeGameId state) archiveData = None"
  by (force simp: find_None_iff)

lemma find_game_Some:
  "activeGameId state \<in> set (map gameId archiveData) \<Longrightarrow>
   \<exists>gd. find (\<lambda>g. gameId g = activeGameId state) archiveData = Some gd"
  by (cases "find (\<lambda>g. gameId g = activeGameId state) archiveData") (force simp: find_None_iff)+

text \<open>
  C6. When the active game is not in the game table, the function resolves after its
  first statement, the dismissal of a previous result notification: the history gains
  that one entry, so no progress notification, no result notification, no directory or
  archive read and no log entry.
\<close>

theorem unsupported_game_silent:
  "activeGameId state \<notin> set (map gameId archiveData) \<Longrightarrow>
   checkForErrors env state pluginsObj tr
     = (Resolved (), tr @ [DismissNotification ''archive-errors''])
   \<and> filter (\<lambda>e. isProgress e \<or> isResultNotification e \<or> isRead e \<or> isLog e)
        (drop (length tr) (snd (checkForErrors env state pluginsObj tr))) = []"
  by (simp add: checkForErrors_def find_game_None)

text \<open>
  The theorem at the game \<open>morrowind\<close>, which the table does not hold.
\<close>

theorem unsupported_game_silent_witness:
  "''morrowind'' \<notin> set (map gameId archiveData)
   \<and> checkForErrors (exampleEnv []) (exampleState ''morrowind'' (Some ''/games/morrowind''))
        (Some examplePluginsObj) []
     = (Resolved (), [DismissNotification ''archive-errors''])"
proof -
  have h: "activeGameId (exampleState ''morrowind'' (Some ''/games/morrowind''))
             \<notin> set (map gameId archiveData)"
    by code_simp
  have h': "''morrowind'' \<notin> set (map gameId archiveData)"
    by code_simp
  from unsupported_game_silent [OF h, of "exampleEnv []" "Some examplePluginsObj" "[]"] h'
  show ?thesis by simp
qed

text \<open>
  C7, as the code has it. For a game of the table and a plugin object that is there,
  when the data folder is undefined or its listing fails, the function resolves (it does
  not raise) and the history gains exactly three entries: the dismissal of a previous
  result notification that opens every run, the attempt to list the folder, and one log
  entry of level \<open>error\<close>. There is no progress notification and no result
  notification.
\<close>

theorem listing_failure_logged:
  assumes game: "activeGameId state \<in> set (map gameId archiveData)"
    and nolist: "dataFolderOf state = None \<or>
        (\<exists>folder. dataFolderOf state = Some folder \<and> readdir env folder = None)"
  shows "checkForErrors env state (Some obj) tr =
      (Resolved (),
       tr @ [DismissNotification ''archive-errors'', ReaddirAsync (dataFolderOf state),
             Log ''error'' ''Error checking for BSA errors''])"
proof -
  from game obtain gd where "find (\<lambda>g. gameId g = activeGameId state) archiveData = Some gd"
    using find_game_Some by blast
  with nolist show ?thesis
    by (auto simp: checkForErrors_def Let_def)
qed

text \<open>
  The theorem for an installation discovered at a path whose data folder cannot be
  listed.
\<close>

theorem listing_failure_logged_witness:
  "checkForErrors (exampleEnv []) (exampleState ''skyrimse'' (Some ''/elsewhere''))
     (Some examplePluginsObj) []
   = (Resolved (),
      [DismissNotification ''archive-errors'', ReaddirAsync (Some ''/elsewhere/data''),
       Log ''error'' ''Error checking for BSA errors''])"
proof -
  have g: "activeGameId (exampleState ''skyrimse'' (Some ''/elsewhere''))
             \<in> set (map gameId archiveData)"
    by code_simp
  have f: "dataFolderOf (exampleState ''skyrimse'' (Some ''/elsewhere'')) = Some ''/elsewhere/data''"
    by code_simp
  have l: "readdir (exampleEnv []) ''/elsewhere/data'' = None"
    by code_simp
  from f l have n: "dataFolderOf (exampleState ''skyrimse'' (Some ''/elsewhere'')) = None \<or>
        (\<exists>folder. dataFolderOf (exampleState ''skyrimse'' (Some ''/elsewhere'')) = Some folder
           \<and> readdir (exampleEnv []) folder = None)"
    by blast
  from listing_failure_logged [OF g n, of examplePluginsObj "[]"] show ?thesis
    unfolding f by simp
qed

text \<open>
  C7 as stated fails. For a game that is not in the table the data folder is undefined
  too, and the run ends before anything is logged: the history has no log entry. For a
  game of the table with no discovered path the log entry is there, but it is not the
  only effect: the run starts by dismissing the previous result notification.
\<close>

theorem undefined_path_without_log:
  "dataFolderOf (exampleState ''morrowind'' None) = None
   \<and> checkForErrors (exampleEnv []) (exampleState ''morrowind'' None) (Some examplePluginsObj) []
     = (Resolved (), [DismissNotification ''archive-errors''])
   \<and> dataFolderOf (exampleState ''skyrimse'' None) = None
   \<and> checkForErrors (exampleEnv []) (exampleState ''skyrimse'' None) (Some examplePluginsObj) []
     = (Resolved (),
        [DismissNotification ''archive-errors'', ReaddirAsync None,
         Log ''error'' ''Error checking for BSA errors''])"
  by code_simp






lemma checkListed_pending:
  assumes c: "c \<in> set (archivesToCheckOf (archiveLoadersOf plugins) (dataArchivesOf dataFiles))"
    and empty: "fileAt env (path_join folder (archiveName c)) = Readable []"
  shows "checkListed env gd plugins mods folder dataFiles tr =
           (Pending, tr @ entriesOf env folder
               (length (archivesToCheckOf (archiveLoadersOf plugins) (dataArchivesOf dataFiles)))
               (archivesToCheckOf (archiveLoadersOf plugins) (dataArchivesOf dataFiles)) 0)"
proof -
  have "readVersion env folder c = Pending"
    using empty by (simp add: readVersion_def streamArchiveVersion_empty)
  with c have "\<exists>c\<in>set (archivesToCheckOf (archiveLoadersOf plugins) (dataArchivesOf dataFiles)).
      readVersion env folder c = Pending" by blast
  moreover from c have "archivesToCheckOf (archiveLoadersOf plugins) (dataArchivesOf dataFiles) \<noteq> []"
    by auto
  ultimately show ?thesis
    by (simp add: checkListed_def detect_eq Let_def)
qed

text \<open>
  C10. The stream of a readable file of length 0 emits \<open>end\<close> only, neither
  \<open>data\<close> nor \<open>error\<close>, so the reader's promise stays pending. When the batch
  of a run holds a candidate whose file is such a file, the run itself stays pending and
  the progress notification \<open>checking-archives-all\<close> is not dismissed by it.
\<close>

theorem empty_file_never_settles:
  assumes game: "find (\<lambda>g. gameId g = activeGameId state) archiveData = Some gd"
    and folder: "dataFolderOf state = Some folder"
    and listing: "readdir env folder = Some dataFiles"
    and c: "c \<in> set (archivesToCheckOf
                      (archiveLoadersOf (arraySort env byLoadOrder (map snd obj)))
                      (dataArchivesOf dataFiles))"
    and empty: "fileAt env (path_join folder (archiveName c)) = Readable []"
  shows "createReadStream (Readable []) = [EndEv]
     \<and> streamArchiveVersion (Readable []) = Pending
     \<and> readVersion env folder c = Pending
     \<and> fst (checkForErrors env state (Some obj) tr) = Pending
     \<and> DismissNotification ''checking-archives-all''
         \<notin> set (drop (length tr) (snd (checkForErrors env state (Some obj) tr)))"
proof -
  have "createReadStream (Readable []) = [EndEv]"
    by (simp add: createReadStream_def)
  moreover have "readVersion env folder c = Pending"
    using empty by (simp add: readVersion_def streamArchiveVersion_empty)
  moreover have "fst (checkForErrors env state (Some obj) tr) = Pending"
    using game folder listing checkListed_pending [OF c empty]
    by (simp add: checkForErrors_def Let_def)
  moreover have "DismissNotification ''checking-archives-all''
         \<notin> set (drop (length tr) (snd (checkForErrors env state (Some obj) tr)))"
    using game folder listing checkListed_pending [OF c empty]
    by (simp add: checkForErrors_def Let_def dismiss_not_in_entries)
  ultimately show ?thesis using streamArchiveVersion_empty by blast
qed

text \<open>
  The theorem on the example installation with an empty \<open>mod - extra.bsa\<close>.
\<close>

theorem empty_file_never_settles_witness:
  "fileAt (exampleEnv []) ''/games/skyrimse/data/mod - extra.bsa'' = Readable []
   \<and> fst (checkForErrors (exampleEnv []) (exampleState ''skyrimse'' (Some ''/games/skyrimse''))
            (Some examplePluginsObj) []) = Pending
   \<and> DismissNotification ''checking-archives-all''
       \<notin> set (snd (checkForErrors (exampleEnv [])
                     (exampleState ''skyrimse'' (Some ''/games/skyrimse''))
                     (Some examplePluginsObj) []))"
proof -
  let ?st = "exampleState ''skyrimse'' (Some ''/games/skyrimse'')"
  let ?c = "\<lparr>archiveName = ''mod - extra.bsa'', archivePlugin = ''Mod.esp''\<rparr>"
  have g: "find (\<lambda>g. gameId g = activeGameId ?st) archiveData = Some skyrimse" by code_simp
  have f: "dataFolderOf ?st = Some ''/games/skyrimse/data''" by code_simp
  have l: "readdir (exampleEnv []) ''/games/skyrimse/data'' = Some exampleListing" by code_simp
  have c: "?c \<in> set (archivesToCheckOf
                      (archiveLoadersOf (arraySort (exampleEnv []) byLoadOrder
                                           (map snd examplePluginsObj)))
                      (dataArchivesOf exampleListing))"
    by code_simp
  have e: "fileAt (exampleEnv []) (path_join ''/games/skyrimse/data'' (archiveName ?c)) = Readable []"
    by code_simp
  have e': "fileAt (exampleEnv []) ''/games/skyrimse/data/mod - extra.bsa'' = Readable []"
    by code_simp
  from empty_file_never_settles [OF g f l c e, of "[]"] e' show ?thesis by simp
qed

section \<open>The report grouper: results\<close>




























end
